theory Spec2Isabelle
  imports Main "HOL-Library.AList"
begin

section \<open>Python values, exceptions and the API transport\<close>

text \<open>
  The module \<^verbatim>\<open>rubrik/cluster.py\<close> handles decoded JSON and caller arguments:
  \<^verbatim>\<open>None\<close>, booleans, integers, strings, lists, tuples and dictionaries. A dictionary is
  an association list in insertion order; a Python dictionary never holds a key twice, so
  the dictionaries a caller can pass have distinct keys. The keys that occur in this module
  (JSON field names and node names) are strings.
\<close>

datatype pyval =
    PNone
  | PBool bool
  | PInt int
  | PStr string
  | PList "pyval list"
  | PTuple "pyval list"
  | PDict "(string \<times> pyval) list"

text \<open>
  \<^verbatim>\<open>sys.exit(msg)\<close> raises \<^verbatim>\<open>SystemExit\<close>; a missing key raises \<^verbatim>\<open>KeyError\<close>;
  subscripting or iterating a value of the wrong type raises \<^verbatim>\<open>TypeError\<close>; calling
  \<^verbatim>\<open>.items()\<close> on a value without that method raises \<^verbatim>\<open>AttributeError\<close>. Whatever the
  transport raises is a value of the same type.
\<close>

datatype exn =
    SystemExit string
  | KeyError string
  | TypeError
  | AttributeError
  | TransportError string

text \<open>
  The class \<^verbatim>\<open>Api\<close> that \<^verbatim>\<open>Cluster\<close> inherits from is not part of the module. Its
  methods are the requests below; an argument the caller leaves out is \<open>None\<close> here, so
  that the transport's own default applies:
  \<^item> \<^verbatim>\<open>get(api_version, api_endpoint, timeout, authentication)\<close>,
  \<^item> \<^verbatim>\<open>post(api_version, api_endpoint, config, timeout, authentication)\<close>,
  \<^item> \<^verbatim>\<open>object_id(object_name, object_type)\<close>.
\<close>

datatype request =
    Get string string "pyval option" "bool option"
  | Post string string pyval pyval "bool option"
  | ObjectId string pyval

text \<open>What a run does that can be observed: log lines, transport requests, printed values.\<close>

datatype event = Log string | Call request | Print pyval

text \<open>
  The transport is a parameter: given the events so far and a request, it returns a
  decoded response or raises. Depending on the history makes it as general as a transport
  with a state of its own.
\<close>

type_synonym transport = "event list \<Rightarrow> request \<Rightarrow> exn + pyval"

type_synonym 'a prog = "transport \<Rightarrow> event list \<Rightarrow> event list \<times> (exn + 'a)"

definition pret :: "'a \<Rightarrow> 'a prog" where
  "pret x = (\<lambda>tr h. (h, Inr x))"

definition praise :: "exn \<Rightarrow> 'a prog" where
  "praise e = (\<lambda>tr h. (h, Inl e))"

definition pbind :: "'a prog \<Rightarrow> ('a \<Rightarrow> 'b prog) \<Rightarrow> 'b prog" where
  "pbind m f = (\<lambda>tr h. case m tr h of
                   (h', Inl e) \<Rightarrow> (h', Inl e)
                 | (h', Inr x) \<Rightarrow> f x tr h')"

definition lift :: "exn + 'a \<Rightarrow> 'a prog" where
  "lift r = (\<lambda>tr h. (h, r))"

definition log :: "string \<Rightarrow> unit prog" where
  "log msg = (\<lambda>tr h. (h @ [Log msg], Inr ()))"

definition py_print :: "pyval \<Rightarrow> unit prog" where
  "py_print v = (\<lambda>tr h. (h @ [Print v], Inr ()))"

definition call :: "request \<Rightarrow> pyval prog" where
  "call rq = (\<lambda>tr h. (h @ [Call rq], tr h rq))"

definition run :: "'a prog \<Rightarrow> transport \<Rightarrow> event list \<times> (exn + 'a)" where
  "run m tr = m tr []"

definition ebind :: "exn + 'a \<Rightarrow> ('a \<Rightarrow> exn + 'b) \<Rightarrow> exn + 'b" where
  "ebind r f = (case r of Inl e \<Rightarrow> Inl e | Inr x \<Rightarrow> f x)"

section \<open>Python operations on values\<close>

definition isinstance_dict :: "pyval \<Rightarrow> bool" where
  "isinstance_dict v = (case v of PDict _ \<Rightarrow> True | _ \<Rightarrow> False)"

definition isinstance_list :: "pyval \<Rightarrow> bool" where
  "isinstance_list v = (case v of PList _ \<Rightarrow> True | _ \<Rightarrow> False)"

text \<open>\<^verbatim>\<open>v[k]\<close> for a string \<open>k\<close>: only a dictionary can be subscripted by a string.\<close>

definition getitem :: "pyval \<Rightarrow> string \<Rightarrow> exn + pyval" where
  "getitem v k =
     (case v of
        PDict d \<Rightarrow> (case map_of d k of None \<Rightarrow> Inl (KeyError k) | Some x \<Rightarrow> Inr x)
      | _ \<Rightarrow> Inl TypeError)"

text \<open>
  \<^verbatim>\<open>for x in v\<close>: the elements of a list or tuple, the keys of a dictionary, the
  characters of a string; anything else is not iterable.
\<close>

definition py_iter :: "pyval \<Rightarrow> exn + pyval list" where
  "py_iter v =
     (case v of
        PList xs \<Rightarrow> Inr xs
      | PTuple xs \<Rightarrow> Inr xs
      | PDict d \<Rightarrow> Inr (map (\<lambda>kv. PStr (fst kv)) d)
      | PStr s \<Rightarrow> Inr (map (\<lambda>c. PStr [c]) s)
      | _ \<Rightarrow> Inl TypeError)"

text \<open>\<^verbatim>\<open>v.items()\<close>.\<close>

definition py_items :: "pyval \<Rightarrow> exn + (string \<times> pyval) list" where
  "py_items v = (case v of PDict d \<Rightarrow> Inr d | _ \<Rightarrow> Inl AttributeError)"

text \<open>
  \<^verbatim>\<open>obj[p1]...[pn][k] = v\<close>: the path is looked up from the outside in, then the key is
  set in the dictionary found there. An existing key keeps its position, a new one goes
  last, as in a Python dictionary.
\<close>

fun setitem_path :: "string list \<Rightarrow> string \<Rightarrow> pyval \<Rightarrow> pyval \<Rightarrow> exn + pyval" where
  "setitem_path [] k v (PDict d) = Inr (PDict (AList.update k v d))"
| "setitem_path (p # ps) k v (PDict d) =
     (case map_of d p of
        None \<Rightarrow> Inl (KeyError p)
      | Some sub \<Rightarrow>
          (case setitem_path ps k v sub of
             Inl e \<Rightarrow> Inl e
           | Inr sub' \<Rightarrow> Inr (PDict (AList.update p sub' d))))"
| "setitem_path _ _ _ _ = Inl TypeError"

text \<open>A block of subscript assignments, executed in order on the same object.\<close>

fun assign_all :: "(string list \<times> string \<times> pyval) list \<Rightarrow> pyval \<Rightarrow> exn + pyval" where
  "assign_all [] obj = Inr obj"
| "assign_all ((path, k, v) # rest) obj = ebind (setitem_path path k v obj) (assign_all rest)"

section \<open>\<^verbatim>\<open>Cluster.cluster_node_ip\<close>\<close>

text \<open>
  \<^verbatim>\<open>
  node_ip_list = []
  for node in api_request['data']:
      node_ip_list.append(node["ipAddress"])
  return node_ip_list
  \<close>
\<close>

fun node_ip_loop :: "pyval list \<Rightarrow> pyval list \<Rightarrow> exn + pyval list" where
  "node_ip_loop [] node_ip_list = Inr node_ip_list"
| "node_ip_loop (node # rest) node_ip_list =
     ebind (getitem node ''ipAddress'') (\<lambda>ip. node_ip_loop rest (node_ip_list @ [ip]))"

definition node_ip_request :: "pyval \<Rightarrow> request" where
  "node_ip_request timeout = Get ''internal'' ''/cluster/me/node'' (Some timeout) None"

definition node_ip_log :: string where
  "node_ip_log = ''cluster_node_ip: Generating a list of all Cluster Node IPs.''"

definition cluster_node_ip :: "pyval \<Rightarrow> pyval prog" where
  "cluster_node_ip timeout =
     pbind (log node_ip_log) (\<lambda>_.
     pbind (call (node_ip_request timeout)) (\<lambda>api_request.
     lift (ebind (getitem api_request ''data'') (\<lambda>data.
           ebind (py_iter data) (\<lambda>nodes.
           ebind (node_ip_loop nodes []) (\<lambda>node_ip_list.
           Inr (PList node_ip_list)))))))"

section \<open>\<^verbatim>\<open>Cluster.bootstrap\<close>\<close>

definition node_config_error :: string where
  "node_config_error =
     ''Error: You must provide a valid dictionary for '' @ [CHR 0x22] @ ''node_config''
       @ [CHR 0x22] @ ''.''"

definition list_error :: "string \<Rightarrow> string" where
  "list_error name =
     ''Error: You must provide a valid list for '' @ [CHR 0x22] @ name @ [CHR 0x22] @ ''.''"

text \<open>
  One pass of the loop over \<^verbatim>\<open>node_config.items()\<close>: five subscript assignments below
  \<^verbatim>\<open>bootstrap_config["nodeConfigs"]\<close>.
\<close>

definition node_assignments ::
  "pyval \<Rightarrow> pyval \<Rightarrow> string \<Rightarrow> pyval \<Rightarrow> (string list \<times> string \<times> pyval) list" where
  "node_assignments management_subnet_mask management_gateway node_name node_ip =
     [([''nodeConfigs''], node_name, PDict []),
      ([''nodeConfigs'', node_name], ''managementIpConfig'', PDict []),
      ([''nodeConfigs'', node_name, ''managementIpConfig''], ''netmask'', management_subnet_mask),
      ([''nodeConfigs'', node_name, ''managementIpConfig''], ''gateway'', management_gateway),
      ([''nodeConfigs'', node_name, ''managementIpConfig''], ''address'', node_ip)]"

fun node_config_loop ::
  "pyval \<Rightarrow> pyval \<Rightarrow> (string \<times> pyval) list \<Rightarrow> pyval \<Rightarrow> exn + pyval" where
  "node_config_loop management_subnet_mask management_gateway [] bootstrap_config =
     Inr bootstrap_config"
| "node_config_loop management_subnet_mask management_gateway ((node_name, node_ip) # rest)
       bootstrap_config =
     ebind (assign_all
              (node_assignments management_subnet_mask management_gateway node_name node_ip)
              bootstrap_config)
           (node_config_loop management_subnet_mask management_gateway rest)"

text \<open>Lines 101 to 119: the configuration, built from an empty dictionary.\<close>

definition build_config ::
  "pyval \<Rightarrow> pyval \<Rightarrow> pyval \<Rightarrow> pyval \<Rightarrow> pyval \<Rightarrow> pyval \<Rightarrow> pyval \<Rightarrow> pyval \<Rightarrow> pyval \<Rightarrow> pyval
     \<Rightarrow> exn + pyval" where
  "build_config cluster_name admin_email admin_password management_gateway
       management_subnet_mask enable_encryption node_config dns_search_domains
       dns_nameservers ntp_servers =
     ebind (assign_all
              [([], ''enableSoftwareEncryptionAtRest'', enable_encryption),
               ([], ''name'', cluster_name),
               ([], ''dnsNameservers'', dns_nameservers),
               ([], ''dnsSearchDomains'', dns_search_domains),
               ([], ''ntpServers'', ntp_servers),
               ([], ''adminUserInfo'', PDict []),
               ([''adminUserInfo''], ''password'', admin_password),
               ([''adminUserInfo''], ''emailAddress'', admin_email),
               ([''adminUserInfo''], ''id'', PStr ''admin''),
               ([], ''nodeConfigs'', PDict [])]
              (PDict []))
       (\<lambda>bootstrap_config.
     ebind (py_items node_config) (\<lambda>items.
     node_config_loop management_subnet_mask management_gateway items bootstrap_config))"

definition bootstrap_log :: string where
  "bootstrap_log = ''bootstrap: Starting the bootstrap process.''"

definition bootstrap_request :: "pyval \<Rightarrow> pyval \<Rightarrow> request" where
  "bootstrap_request bootstrap_config timeout =
     Post ''internal'' ''/cluster/me/bootstrap'' bootstrap_config timeout (Some False)"

definition bootstrap ::
  "pyval \<Rightarrow> pyval \<Rightarrow> pyval \<Rightarrow> pyval \<Rightarrow> pyval \<Rightarrow> pyval \<Rightarrow> pyval \<Rightarrow> pyval \<Rightarrow> pyval \<Rightarrow> pyval
     \<Rightarrow> pyval \<Rightarrow> pyval prog" where
  "bootstrap cluster_name admin_email admin_password management_gateway
       management_subnet_mask enable_encryption node_config dns_search_domains
       dns_nameservers ntp_servers timeout =
     (if node_config = PNone \<or> \<not> isinstance_dict node_config
      then praise (SystemExit node_config_error)
      else
     pbind (if dns_search_domains = PNone then pret (PList [])
            else if \<not> isinstance_list dns_search_domains
            then praise (SystemExit (list_error ''dns_search_domains''))
            else pret dns_search_domains) (\<lambda>dns_search_domains.
     pbind (if dns_nameservers = PNone then pret (PList [PStr ''8.8.8.8''])
            else if \<not> isinstance_list dns_nameservers
            then praise (SystemExit (list_error ''dns_nameservers''))
            else pret dns_nameservers) (\<lambda>dns_nameservers.
     pbind (if ntp_servers = PNone then pret (PList [PStr ''pool.ntp.org''])
            else if \<not> isinstance_list ntp_servers
            then praise (SystemExit (list_error ''ntp_servers''))
            else pret ntp_servers) (\<lambda>ntp_servers.
     pbind (lift (build_config cluster_name admin_email admin_password management_gateway
                    management_subnet_mask enable_encryption node_config dns_search_domains
                    dns_nameservers ntp_servers)) (\<lambda>bootstrap_config.
     pbind (log bootstrap_log) (\<lambda>_.
     call (bootstrap_request bootstrap_config timeout)))))))"

section \<open>\<^verbatim>\<open>Cluster.end_user_authorization\<close>\<close>

definition valid_object_type :: "pyval list" where
  "valid_object_type = [PStr ''vmware'']"

text \<open>
  The exit message is the format string with \<^verbatim>\<open>str(['vmware'])\<close> filled in. The object
  and user names are strings, so \<^verbatim>\<open>'{}'.format(name)\<close> is the name itself.
\<close>

definition object_type_error :: string where
  "object_type_error =
     ''Error: The end_user_authorization() object_type argument must be one of the following: [''
       @ [CHR 0x27] @ ''vmware'' @ [CHR 0x27] @ ''].''"

definition vm_search_log :: "string \<Rightarrow> string" where
  "vm_search_log object_name =
     ''end_user_authorization: Searching the Rubrik Cluster for the vSphere VM ''
       @ [CHR 0x27] @ object_name @ [CHR 0x27] @ ''.''"

definition user_search_log :: "string \<Rightarrow> string" where
  "user_search_log end_user =
     ''end_user_authorization: Searching the Rubrik Cluster for the End User ''
       @ [CHR 0x27] @ end_user @ [CHR 0x27] @ ''.''"

definition user_request :: "string \<Rightarrow> request" where
  "user_request end_user = Get ''internal'' (''/user?username='' @ end_user) None None"

definition end_user_authorization :: "string \<Rightarrow> string \<Rightarrow> pyval \<Rightarrow> pyval \<Rightarrow> pyval prog" where
  "end_user_authorization object_name end_user object_type timeout =
     (if object_type \<notin> set valid_object_type
      then praise (SystemExit object_type_error)
      else
     pbind (log (vm_search_log object_name)) (\<lambda>_.
     pbind (call (ObjectId object_name object_type)) (\<lambda>vm_id.
     pbind (log (user_search_log end_user)) (\<lambda>_.
     pbind (call (user_request end_user)) (\<lambda>user_id.
     pbind (py_print user_id) (\<lambda>_.
     pret PNone))))))"

section \<open>Closed forms and test transports used in the statements\<close>

text \<open>The entry \<^verbatim>\<open>bootstrap\<close> stores for one node once its five assignments are done.\<close>

definition node_entry :: "pyval \<Rightarrow> pyval \<Rightarrow> pyval \<Rightarrow> pyval" where
  "node_entry management_subnet_mask management_gateway node_ip =
     PDict [(''managementIpConfig'',
             PDict [(''netmask'', management_subnet_mask),
                    (''gateway'', management_gateway),
                    (''address'', node_ip)])]"

definition add_node ::
  "pyval \<Rightarrow> pyval \<Rightarrow> (string \<times> pyval) list \<Rightarrow> string \<times> pyval \<Rightarrow> (string \<times> pyval) list" where
  "add_node management_subnet_mask management_gateway acc item =
     AList.update (fst item) (node_entry management_subnet_mask management_gateway (snd item)) acc"

text \<open>The configuration once the fixed fields are set, with a given \<^verbatim>\<open>nodeConfigs\<close>.\<close>

definition config_with ::
  "pyval \<Rightarrow> pyval \<Rightarrow> pyval \<Rightarrow> pyval \<Rightarrow> pyval \<Rightarrow> pyval \<Rightarrow> pyval
     \<Rightarrow> (string \<times> pyval) list \<Rightarrow> pyval" where
  "config_with cluster_name admin_email admin_password enable_encryption
       dns_search_domains dns_nameservers ntp_servers node_configs =
     PDict [(''enableSoftwareEncryptionAtRest'', enable_encryption),
            (''name'', cluster_name),
            (''dnsNameservers'', dns_nameservers),
            (''dnsSearchDomains'', dns_search_domains),
            (''ntpServers'', ntp_servers),
            (''adminUserInfo'',
             PDict [(''password'', admin_password),
                    (''emailAddress'', admin_email),
                    (''id'', PStr ''admin'')]),
            (''nodeConfigs'', PDict node_configs)]"

text \<open>An override that passes the checks of lines 86 to 99: left out, or a list.\<close>

definition none_or_list :: "pyval \<Rightarrow> bool" where
  "none_or_list v = (v = PNone \<or> isinstance_list v)"

definition or_default :: "pyval \<Rightarrow> pyval \<Rightarrow> pyval" where
  "or_default v d = (if v = PNone then d else v)"

text \<open>A transport that answers every request with the same response.\<close>

definition const_transport :: "pyval \<Rightarrow> transport" where
  "const_transport response h rq = Inr response"

text \<open>The response of the node listing used as the running example.\<close>

definition two_nodes :: pyval where
  "two_nodes =
     PDict [(''data'', PList [PDict [(''ipAddress'', PStr ''10.0.0.1'')],
                              PDict [(''ipAddress'', PStr ''10.0.0.2'')]])]"

section \<open>The program monad\<close>

lemma pbind_pret: "pbind (pret x) f = f x"
  by (simp add: pbind_def pret_def)

lemma pbind_praise: "pbind (praise e) f = praise e"
  by (simp add: pbind_def praise_def)

section \<open>Properties of \<^verbatim>\<open>end_user_authorization\<close>\<close>

text \<open>
  Claim C8. For every \<open>object_type\<close> that is not in the allowed list \<^verbatim>\<open>['vmware']\<close>,
  \<^verbatim>\<open>end_user_authorization\<close> exits the process and nothing was logged, requested or
  printed before: neither the object-id lookup nor the user lookup happens.
\<close>

theorem end_user_authorization_invalid_type:
  assumes "object_type \<notin> set valid_object_type"
  shows "run (end_user_authorization object_name end_user object_type timeout) tr
           = ([], Inl (SystemExit object_type_error))"
  using assms by (simp add: end_user_authorization_def run_def praise_def)

theorem end_user_authorization_invalid_type_witness:
  "PStr ''hyperv'' \<notin> set valid_object_type
   \<and> run (end_user_authorization ''vm1'' ''bob'' (PStr ''hyperv'') (PInt 15))
         (const_transport PNone)
       = ([], Inl (SystemExit object_type_error))"
proof -
  have h: "PStr ''hyperv'' \<notin> set valid_object_type"
    by (simp add: valid_object_type_def)
  from end_user_authorization_invalid_type [OF h] show ?thesis using h by simp
qed

text \<open>
  Claim C9. With a valid \<open>object_type\<close>, \<^verbatim>\<open>end_user_authorization\<close> logs, resolves the
  object name through \<^verbatim>\<open>object_id\<close>, logs, issues the GET on
  \<^verbatim>\<open>/user?username=<end_user>\<close> of the internal API, prints the response of that GET, and
  returns \<^verbatim>\<open>None\<close>: this is the run whenever the transport answers both requests, and
  whatever the transport does, the method never returns a value other than \<^verbatim>\<open>None\<close>.
\<close>

theorem end_user_authorization_prints_returns_none:
  assumes "object_type \<in> set valid_object_type"
  shows "(tr [Log (''end_user_authorization: Searching the Rubrik Cluster for the vSphere VM ''
                    @ [CHR 0x27] @ object_name @ [CHR 0x27] @ ''.'')]
              (ObjectId object_name object_type) = Inr vm_id
          \<and> tr [Log (''end_user_authorization: Searching the Rubrik Cluster for the vSphere VM ''
                      @ [CHR 0x27] @ object_name @ [CHR 0x27] @ ''.''),
                 Call (ObjectId object_name object_type),
                 Log (''end_user_authorization: Searching the Rubrik Cluster for the End User ''
                      @ [CHR 0x27] @ end_user @ [CHR 0x27] @ ''.'')]
                (Get ''internal'' (''/user?username='' @ end_user) None None) = Inr user_id
          \<longrightarrow> run (end_user_authorization object_name end_user object_type timeout) tr
                = ([Log (''end_user_authorization: Searching the Rubrik Cluster for the vSphere VM ''
                         @ [CHR 0x27] @ object_name @ [CHR 0x27] @ ''.''),
                    Call (ObjectId object_name object_type),
                    Log (''end_user_authorization: Searching the Rubrik Cluster for the End User ''
                         @ [CHR 0x27] @ end_user @ [CHR 0x27] @ ''.''),
                    Call (Get ''internal'' (''/user?username='' @ end_user) None None),
                    Print user_id],
                   Inr PNone))
       \<and> (snd (run (end_user_authorization object_name end_user object_type timeout) tr) = Inr v
          \<longrightarrow> v = PNone)"
proof (intro conjI impI)
  assume "tr [Log (''end_user_authorization: Searching the Rubrik Cluster for the vSphere VM ''
                    @ [CHR 0x27] @ object_name @ [CHR 0x27] @ ''.'')]
              (ObjectId object_name object_type) = Inr vm_id
          \<and> tr [Log (''end_user_authorization: Searching the Rubrik Cluster for the vSphere VM ''
                      @ [CHR 0x27] @ object_name @ [CHR 0x27] @ ''.''),
                 Call (ObjectId object_name object_type),
                 Log (''end_user_authorization: Searching the Rubrik Cluster for the End User ''
                      @ [CHR 0x27] @ end_user @ [CHR 0x27] @ ''.'')]
                (Get ''internal'' (''/user?username='' @ end_user) None None) = Inr user_id"
  with assms
  show "run (end_user_authorization object_name end_user object_type timeout) tr
          = ([Log (''end_user_authorization: Searching the Rubrik Cluster for the vSphere VM ''
                   @ [CHR 0x27] @ object_name @ [CHR 0x27] @ ''.''),
              Call (ObjectId object_name object_type),
              Log (''end_user_authorization: Searching the Rubrik Cluster for the End User ''
                   @ [CHR 0x27] @ end_user @ [CHR 0x27] @ ''.''),
              Call (Get ''internal'' (''/user?username='' @ end_user) None None),
              Print user_id],
             Inr PNone)"
    by (simp add: end_user_authorization_def run_def pbind_def log_def call_def py_print_def
          pret_def vm_search_log_def user_search_log_def user_request_def)
next
  assume "snd (run (end_user_authorization object_name end_user object_type timeout) tr) = Inr v"
  then show "v = PNone"
    by (auto simp: end_user_authorization_def run_def pbind_def log_def call_def py_print_def
          pret_def praise_def split: if_splits sum.splits)
qed

theorem end_user_authorization_prints_returns_none_witness:
  "PStr ''vmware'' \<in> set valid_object_type
   \<and> run (end_user_authorization ''vm1'' ''bob'' (PStr ''vmware'') (PInt 15))
         (const_transport (PStr ''User:::7''))
       = ([Log (''end_user_authorization: Searching the Rubrik Cluster for the vSphere VM ''
                @ [CHR 0x27] @ ''vm1'' @ [CHR 0x27] @ ''.''),
           Call (ObjectId ''vm1'' (PStr ''vmware'')),
           Log (''end_user_authorization: Searching the Rubrik Cluster for the End User ''
                @ [CHR 0x27] @ ''bob'' @ [CHR 0x27] @ ''.''),
           Call (Get ''internal'' ''/user?username=bob'' None None),
           Print (PStr ''User:::7'')],
          Inr PNone)"
proof -
  have h: "PStr ''vmware'' \<in> set valid_object_type"
    by (simp add: valid_object_type_def)
  from end_user_authorization_prints_returns_none
         [where tr = "const_transport (PStr ''User:::7'')" and object_name = "''vm1''"
            and end_user = "''bob''" and vm_id = "PStr ''User:::7''"
            and user_id = "PStr ''User:::7''" and timeout = "PInt 15", OF h]
  show ?thesis using h by (simp add: const_transport_def)
qed

text \<open>
  Claim C10. The \<open>timeout\<close> argument of \<^verbatim>\<open>end_user_authorization\<close> has no effect: two
  runs that differ only in it give the same events and the same outcome, and no GET of the
  run carries a timeout, so the user lookup runs under the transport's default.
\<close>

theorem end_user_authorization_timeout_ignored:
  "run (end_user_authorization object_name end_user object_type t1) tr
     = run (end_user_authorization object_name end_user object_type t2) tr
   \<and> Call (Get api_version endpoint (Some t) auth)
       \<notin> set (fst (run (end_user_authorization object_name end_user object_type t1) tr))"
  by (auto simp: end_user_authorization_def run_def pbind_def log_def call_def py_print_def
        pret_def praise_def user_request_def split: sum.splits)

section \<open>The configuration \<^verbatim>\<open>bootstrap\<close> builds\<close>

lemma assign_fixed_fields:
  "assign_all
     [([], ''enableSoftwareEncryptionAtRest'', enable_encryption),
      ([], ''name'', cluster_name),
      ([], ''dnsNameservers'', dns_nameservers),
      ([], ''dnsSearchDomains'', dns_search_domains),
      ([], ''ntpServers'', ntp_servers),
      ([], ''adminUserInfo'', PDict []),
      ([''adminUserInfo''], ''password'', admin_password),
      ([''adminUserInfo''], ''emailAddress'', admin_email),
      ([''adminUserInfo''], ''id'', PStr ''admin''),
      ([], ''nodeConfigs'', PDict [])]
     (PDict [])
   = Inr (config_with cluster_name admin_email admin_password enable_encryption
            dns_search_domains dns_nameservers ntp_servers [])"
  by (simp add: ebind_def config_with_def)

lemma assign_node:
  "assign_all (node_assignments nm gw node_name node_ip)
     (config_with cn ae ap ee dsd dns ntp acc)
   = Inr (config_with cn ae ap ee dsd dns ntp (add_node nm gw acc (node_name, node_ip)))"
  by (simp add: node_assignments_def ebind_def config_with_def add_node_def node_entry_def
        update_conv')

lemma node_config_loop_closed:
  "node_config_loop nm gw items (config_with cn ae ap ee dsd dns ntp acc)
   = Inr (config_with cn ae ap ee dsd dns ntp (foldl (add_node nm gw) acc items))"
proof (induction items arbitrary: acc)
  case Nil
  show ?case by simp
next
  case (Cons item items)
  obtain node_name node_ip where item: "item = (node_name, node_ip)"
    by (cases item)
  show ?case
    by (simp add: item assign_node ebind_def Cons.IH)
qed

lemma build_config_closed:
  "build_config cn ae ap gw nm ee (PDict nc) dsd dns ntp
     = Inr (config_with cn ae ap ee dsd dns ntp (foldl (add_node nm gw) [] nc))"
  unfolding build_config_def assign_fixed_fields
  by (simp add: py_items_def ebind_def node_config_loop_closed)

text \<open>On a dictionary with distinct keys the loop adds one entry per item, in order.\<close>

lemma update_fresh:
  "k \<notin> fst ` set al \<Longrightarrow> AList.update k v al = al @ [(k, v)]"
  by (induction al) auto

lemma foldl_add_node_distinct:
  "distinct (map fst acc @ map fst items) \<Longrightarrow>
   foldl (add_node nm gw) acc items
     = acc @ map (\<lambda>item. (fst item, node_entry nm gw (snd item))) items"
proof (induction items arbitrary: acc)
  case Nil
  show ?case by simp
next
  case (Cons item items)
  have fresh: "fst item \<notin> fst ` set acc"
    using Cons.prems by auto
  have step: "add_node nm gw acc item = acc @ [(fst item, node_entry nm gw (snd item))]"
    by (simp add: add_node_def update_fresh [OF fresh])
  have "distinct (map fst (acc @ [(fst item, node_entry nm gw (snd item))]) @ map fst items)"
    using Cons.prems by auto
  from Cons.IH [OF this] show ?case
    by (simp add: step)
qed

lemma map_of_node_entries:
  "distinct (map fst nc) \<Longrightarrow> (node_name, node_ip) \<in> set nc \<Longrightarrow>
   map_of (map (\<lambda>item. (fst item, node_entry nm gw (snd item))) nc) node_name
     = Some (node_entry nm gw node_ip)"
  by (induction nc) (auto simp: rev_image_eqI)

text \<open>Without the assumption on the keys, every node still gets an entry of that shape.\<close>

lemma map_of_foldl_add_node:
  "k \<in> fst ` set items \<Longrightarrow>
   \<exists>ip. (k, ip) \<in> set items
        \<and> map_of (foldl (add_node nm gw) acc items) k = Some (node_entry nm gw ip)"
proof (induction items rule: rev_induct)
  case Nil
  then show ?case by simp
next
  case (snoc item items)
  show ?case
  proof (cases "k = fst item")
    case True
    have "(k, snd item) \<in> set (items @ [item])"
      by (simp add: True)
    moreover have "map_of (foldl (add_node nm gw) acc (items @ [item])) k
                     = Some (node_entry nm gw (snd item))"
      by (simp add: add_node_def update_conv' True)
    ultimately show ?thesis by blast
  next
    case False
    with snoc.prems have "k \<in> fst ` set items"
      by auto
    from snoc.IH [OF this] obtain ip where "(k, ip) \<in> set items"
      and "map_of (foldl (add_node nm gw) acc items) k = Some (node_entry nm gw ip)"
      by blast
    with False have "(k, ip) \<in> set (items @ [item])"
      and "map_of (foldl (add_node nm gw) acc (items @ [item])) k
             = Some (node_entry nm gw ip)"
      by (simp_all add: add_node_def update_conv')
    then show ?thesis by blast
  qed
qed

section \<open>Runs of \<^verbatim>\<open>bootstrap\<close>\<close>

lemma resolve_override:
  "none_or_list v \<Longrightarrow>
   (if v = PNone then pret d else if \<not> isinstance_list v then praise e else pret v)
     = pret (or_default v d)"
  by (auto simp: none_or_list_def or_default_def)

lemma bootstrap_run:
  assumes "none_or_list dsd" and "none_or_list dns" and "none_or_list ntp"
  shows "run (bootstrap cn ae ap gw nm ee (PDict nc) dsd dns ntp timeout) tr
     = ([Log bootstrap_log,
         Call (bootstrap_request
                 (config_with cn ae ap ee (or_default dsd (PList []))
                    (or_default dns (PList [PStr ''8.8.8.8'']))
                    (or_default ntp (PList [PStr ''pool.ntp.org'']))
                    (foldl (add_node nm gw) [] nc)) timeout)],
        tr [Log bootstrap_log]
          (bootstrap_request
                 (config_with cn ae ap ee (or_default dsd (PList []))
                    (or_default dns (PList [PStr ''8.8.8.8'']))
                    (or_default ntp (PList [PStr ''pool.ntp.org'']))
                    (foldl (add_node nm gw) [] nc)) timeout))"
  by (simp add: bootstrap_def isinstance_dict_def resolve_override [OF assms(1)]
        resolve_override [OF assms(2)] resolve_override [OF assms(3)]
        build_config_closed run_def pbind_def pret_def lift_def log_def call_def)

lemma none_or_list_PNone: "none_or_list PNone"
  by (simp add: none_or_list_def)

lemma none_or_list_PList: "none_or_list (PList xs)"
  by (simp add: none_or_list_def isinstance_list_def)

text \<open>
  Claim C3. When \<open>node_config\<close> is \<^verbatim>\<open>None\<close> or not a dictionary, or when one of
  \<open>dns_search_domains\<close>, \<open>dns_nameservers\<close>, \<open>ntp_servers\<close> is given and is not a list
  (which covers every value that is not a sequence), \<^verbatim>\<open>bootstrap\<close> exits the process and
  the event list is empty: nothing was logged and the transport was never called.
\<close>

theorem bootstrap_invalid_never_calls_transport:
  assumes "node_config = PNone \<or> \<not> isinstance_dict node_config
           \<or> (dns_search_domains \<noteq> PNone \<and> \<not> isinstance_list dns_search_domains)
           \<or> (dns_nameservers \<noteq> PNone \<and> \<not> isinstance_list dns_nameservers)
           \<or> (ntp_servers \<noteq> PNone \<and> \<not> isinstance_list ntp_servers)"
  shows "\<exists>msg. run (bootstrap cluster_name admin_email admin_password management_gateway
                      management_subnet_mask enable_encryption node_config
                      dns_search_domains dns_nameservers ntp_servers timeout) tr
                 = ([], Inl (SystemExit msg))"
  using assms
  by (auto simp: bootstrap_def run_def pbind_def praise_def pret_def)

theorem bootstrap_invalid_never_calls_transport_witness:
  "\<not> isinstance_dict (PList [PStr ''10.0.0.1''])
   \<and> (\<exists>msg. run (bootstrap (PStr ''cluster1'') (PStr ''admin@example.com'') (PStr ''secret'')
                    (PStr ''10.0.0.254'') (PStr ''255.255.255.0'') (PBool True)
                    (PList [PStr ''10.0.0.1'']) PNone PNone PNone (PInt 15))
                (const_transport PNone)
              = ([], Inl (SystemExit msg)))
   \<and> (PInt 8 \<noteq> PNone \<and> \<not> isinstance_list (PInt 8))
   \<and> (\<exists>msg. run (bootstrap (PStr ''cluster1'') (PStr ''admin@example.com'') (PStr ''secret'')
                    (PStr ''10.0.0.254'') (PStr ''255.255.255.0'') (PBool True)
                    (PDict [(''node1'', PStr ''10.0.0.1'')]) PNone (PInt 8) PNone (PInt 15))
                (const_transport PNone)
              = ([], Inl (SystemExit msg)))"
proof -
  have h1: "\<not> isinstance_dict (PList [PStr ''10.0.0.1''])"
    by (simp add: isinstance_dict_def)
  have h2: "PInt 8 \<noteq> PNone \<and> \<not> isinstance_list (PInt 8)"
    by (simp add: isinstance_list_def)
  have r1: "\<exists>msg. run (bootstrap (PStr ''cluster1'') (PStr ''admin@example.com'')
                    (PStr ''secret'') (PStr ''10.0.0.254'') (PStr ''255.255.255.0'')
                    (PBool True) (PList [PStr ''10.0.0.1'']) PNone PNone PNone (PInt 15))
                (const_transport PNone)
              = ([], Inl (SystemExit msg))"
    by (rule bootstrap_invalid_never_calls_transport) (simp add: h1)
  have r2: "\<exists>msg. run (bootstrap (PStr ''cluster1'') (PStr ''admin@example.com'')
                    (PStr ''secret'') (PStr ''10.0.0.254'') (PStr ''255.255.255.0'')
                    (PBool True) (PDict [(''node1'', PStr ''10.0.0.1'')]) PNone (PInt 8)
                    PNone (PInt 15))
                (const_transport PNone)
              = ([], Inl (SystemExit msg))"
    by (rule bootstrap_invalid_never_calls_transport) (simp add: h2)
  from h1 r1 h2 r2 show ?thesis by blast
qed

text \<open>
  Claim C1. When \<open>node_config\<close> is a dictionary and the three overrides pass their checks,
  \<^verbatim>\<open>bootstrap\<close> logs and then posts, to \<^verbatim>\<open>/cluster/me/bootstrap\<close> of the internal API and
  without authentication, a configuration whose \<^verbatim>\<open>nodeConfigs\<close> has exactly the keys of
  \<open>node_config\<close>, in the same order, and the entry of each node holds under
  \<^verbatim>\<open>managementIpConfig\<close> the caller's subnet mask as \<^verbatim>\<open>netmask\<close>, the caller's gateway
  as \<^verbatim>\<open>gateway\<close> and that node's IP as \<^verbatim>\<open>address\<close>.
\<close>

theorem bootstrap_node_configs:
  assumes "node_config = PDict nc" and "distinct (map fst nc)"
    and "none_or_list dns_search_domains" and "none_or_list dns_nameservers"
    and "none_or_list ntp_servers"
  shows "\<exists>cfg entries.
           fst (run (bootstrap cluster_name admin_email admin_password management_gateway
                       management_subnet_mask enable_encryption node_config
                       dns_search_domains dns_nameservers ntp_servers timeout) tr)
             = [Log ''bootstrap: Starting the bootstrap process.'',
                Call (Post ''internal'' ''/cluster/me/bootstrap'' cfg timeout (Some False))]
         \<and> getitem cfg ''nodeConfigs'' = Inr (PDict entries)
         \<and> map fst entries = map fst nc
         \<and> (\<forall>(node_name, node_ip) \<in> set nc.
               getitem (PDict entries) node_name
                 = Inr (PDict [(''managementIpConfig'',
                                PDict [(''netmask'', management_subnet_mask),
                                       (''gateway'', management_gateway),
                                       (''address'', node_ip)])]))"
proof -
  let ?entries =
    "map (\<lambda>item. (fst item, node_entry management_subnet_mask management_gateway (snd item))) nc"
  let ?cfg =
    "config_with cluster_name admin_email admin_password enable_encryption
       (or_default dns_search_domains (PList []))
       (or_default dns_nameservers (PList [PStr ''8.8.8.8'']))
       (or_default ntp_servers (PList [PStr ''pool.ntp.org''])) ?entries"
  have fold: "foldl (add_node management_subnet_mask management_gateway) [] nc = ?entries"
    using foldl_add_node_distinct [of "[]" nc] assms(2) by simp
  have trace:
    "fst (run (bootstrap cluster_name admin_email admin_password management_gateway
                 management_subnet_mask enable_encryption node_config
                 dns_search_domains dns_nameservers ntp_servers timeout) tr)
       = [Log ''bootstrap: Starting the bootstrap process.'',
          Call (Post ''internal'' ''/cluster/me/bootstrap'' ?cfg timeout (Some False))]"
    by (simp add: assms(1) bootstrap_run [OF assms(3) assms(4) assms(5)] fold
          bootstrap_log_def bootstrap_request_def)
  have nodes: "getitem ?cfg ''nodeConfigs'' = Inr (PDict ?entries)"
    by (simp add: getitem_def config_with_def)
  have keys: "map fst ?entries = map fst nc"
    by (simp add: comp_def)
  have each:
    "\<forall>(node_name, node_ip) \<in> set nc.
       getitem (PDict ?entries) node_name
         = Inr (PDict [(''managementIpConfig'',
                        PDict [(''netmask'', management_subnet_mask),
                               (''gateway'', management_gateway),
                               (''address'', node_ip)])])"
    using map_of_node_entries [OF assms(2)]
    by (auto simp: getitem_def node_entry_def)
  from trace nodes keys each show ?thesis
    by (intro exI [of _ ?cfg] exI [of _ ?entries] conjI)
qed

theorem bootstrap_node_configs_witness:
  "distinct (map fst [(''node1'', PStr ''10.0.0.1''), (''node2'', PStr ''10.0.0.2'')])
   \<and> none_or_list PNone
   \<and> (\<exists>cfg entries.
           fst (run (bootstrap (PStr ''cluster1'') (PStr ''admin@example.com'')
                       (PStr ''secret'') (PStr ''10.0.0.254'') (PStr ''255.255.255.0'')
                       (PBool True)
                       (PDict [(''node1'', PStr ''10.0.0.1''), (''node2'', PStr ''10.0.0.2'')])
                       PNone PNone PNone (PInt 15)) (const_transport PNone))
             = [Log ''bootstrap: Starting the bootstrap process.'',
                Call (Post ''internal'' ''/cluster/me/bootstrap'' cfg (PInt 15) (Some False))]
         \<and> getitem cfg ''nodeConfigs'' = Inr (PDict entries)
         \<and> map fst entries
             = map fst [(''node1'', PStr ''10.0.0.1''), (''node2'', PStr ''10.0.0.2'')]
         \<and> (\<forall>(node_name, node_ip)
                 \<in> set [(''node1'', PStr ''10.0.0.1''), (''node2'', PStr ''10.0.0.2'')].
               getitem (PDict entries) node_name
                 = Inr (PDict [(''managementIpConfig'',
                                PDict [(''netmask'', PStr ''255.255.255.0''),
                                       (''gateway'', PStr ''10.0.0.254''),
                                       (''address'', node_ip)])])))"
proof -
  have d: "distinct (map fst [(''node1'', PStr ''10.0.0.1''), (''node2'', PStr ''10.0.0.2'')])"
    by simp
  from d none_or_list_PNone
    bootstrap_node_configs [OF refl d none_or_list_PNone none_or_list_PNone none_or_list_PNone]
  show ?thesis by (intro conjI)
qed

text \<open>
  Claim C4. When \<^verbatim>\<open>bootstrap\<close> reaches request construction, the configuration it posts
  has \<^verbatim>\<open>dnsNameservers\<close> equal to \<^verbatim>\<open>["8.8.8.8"]\<close> if \<open>dns_nameservers\<close> was left out,
  \<^verbatim>\<open>ntpServers\<close> equal to \<^verbatim>\<open>["pool.ntp.org"]\<close> if \<open>ntp_servers\<close> was left out, and
  \<^verbatim>\<open>dnsSearchDomains\<close> equal to the empty list if \<open>dns_search_domains\<close> was left out.
\<close>

theorem bootstrap_defaults:
  assumes "isinstance_dict node_config"
    and "none_or_list dns_search_domains" and "none_or_list dns_nameservers"
    and "none_or_list ntp_servers"
  shows "\<exists>cfg.
           fst (run (bootstrap cluster_name admin_email admin_password management_gateway
                       management_subnet_mask enable_encryption node_config
                       dns_search_domains dns_nameservers ntp_servers timeout) tr)
             = [Log ''bootstrap: Starting the bootstrap process.'',
                Call (Post ''internal'' ''/cluster/me/bootstrap'' cfg timeout (Some False))]
         \<and> (dns_nameservers = PNone
               \<longrightarrow> getitem cfg ''dnsNameservers'' = Inr (PList [PStr ''8.8.8.8'']))
         \<and> (ntp_servers = PNone
               \<longrightarrow> getitem cfg ''ntpServers'' = Inr (PList [PStr ''pool.ntp.org'']))
         \<and> (dns_search_domains = PNone
               \<longrightarrow> getitem cfg ''dnsSearchDomains'' = Inr (PList []))"
proof -
  obtain nc where nc: "node_config = PDict nc"
    using assms(1) by (cases node_config) (simp_all add: isinstance_dict_def)
  let ?cfg =
    "config_with cluster_name admin_email admin_password enable_encryption
       (or_default dns_search_domains (PList []))
       (or_default dns_nameservers (PList [PStr ''8.8.8.8'']))
       (or_default ntp_servers (PList [PStr ''pool.ntp.org'']))
       (foldl (add_node management_subnet_mask management_gateway) [] nc)"
  have trace:
    "fst (run (bootstrap cluster_name admin_email admin_password management_gateway
                 management_subnet_mask enable_encryption node_config
                 dns_search_domains dns_nameservers ntp_servers timeout) tr)
       = [Log ''bootstrap: Starting the bootstrap process.'',
          Call (Post ''internal'' ''/cluster/me/bootstrap'' ?cfg timeout (Some False))]"
    by (simp add: nc bootstrap_run [OF assms(2) assms(3) assms(4)]
          bootstrap_log_def bootstrap_request_def)
  have dns: "dns_nameservers = PNone
               \<longrightarrow> getitem ?cfg ''dnsNameservers'' = Inr (PList [PStr ''8.8.8.8''])"
    by (simp add: getitem_def config_with_def or_default_def)
  have ntp: "ntp_servers = PNone
               \<longrightarrow> getitem ?cfg ''ntpServers'' = Inr (PList [PStr ''pool.ntp.org''])"
    by (simp add: getitem_def config_with_def or_default_def)
  have dsd: "dns_search_domains = PNone
               \<longrightarrow> getitem ?cfg ''dnsSearchDomains'' = Inr (PList [])"
    by (simp add: getitem_def config_with_def or_default_def)
  from trace dns ntp dsd show ?thesis
    by (intro exI [of _ ?cfg] conjI)
qed

theorem bootstrap_defaults_witness:
  "isinstance_dict (PDict [(''node1'', PStr ''10.0.0.1'')])
   \<and> none_or_list PNone
   \<and> (\<exists>cfg.
           fst (run (bootstrap (PStr ''cluster1'') (PStr ''admin@example.com'')
                       (PStr ''secret'') (PStr ''10.0.0.254'') (PStr ''255.255.255.0'')
                       (PBool True) (PDict [(''node1'', PStr ''10.0.0.1'')])
                       PNone PNone PNone (PInt 15)) (const_transport PNone))
             = [Log ''bootstrap: Starting the bootstrap process.'',
                Call (Post ''internal'' ''/cluster/me/bootstrap'' cfg (PInt 15) (Some False))]
         \<and> getitem cfg ''dnsNameservers'' = Inr (PList [PStr ''8.8.8.8''])
         \<and> getitem cfg ''ntpServers'' = Inr (PList [PStr ''pool.ntp.org''])
         \<and> getitem cfg ''dnsSearchDomains'' = Inr (PList []))"
proof -
  have d: "isinstance_dict (PDict [(''node1'', PStr ''10.0.0.1'')])"
    by (simp add: isinstance_dict_def)
  from bootstrap_defaults [OF d none_or_list_PNone none_or_list_PNone none_or_list_PNone]
  show ?thesis using d none_or_list_PNone by simp
qed

text \<open>
  Claim C2, as the code has it. \<^verbatim>\<open>bootstrap\<close> checks that \<open>node_config\<close> is a dictionary
  and exits with the message of line 84 when it is \<^verbatim>\<open>None\<close> or not a dictionary. It does
  not check that the dictionary has an entry: with an empty one, and with each of the three
  overrides left out or a list, the run goes on, logs and posts a configuration whose
  \<^verbatim>\<open>nodeConfigs\<close> is empty.
\<close>

theorem bootstrap_node_config_validation:
  "(node_config = PNone \<or> \<not> isinstance_dict node_config
      \<longrightarrow> run (bootstrap cluster_name admin_email admin_password management_gateway
                 management_subnet_mask enable_encryption node_config
                 dns_search_domains dns_nameservers ntp_servers timeout) tr
            = ([], Inl (SystemExit (''Error: You must provide a valid dictionary for ''
                                     @ [CHR 0x22] @ ''node_config'' @ [CHR 0x22] @ ''.''))))
   \<and> (none_or_list dns_search_domains \<and> none_or_list dns_nameservers
        \<and> none_or_list ntp_servers
      \<longrightarrow> (\<exists>cfg.
             fst (run (bootstrap cluster_name admin_email admin_password management_gateway
                         management_subnet_mask enable_encryption (PDict [])
                         dns_search_domains dns_nameservers ntp_servers timeout) tr)
               = [Log ''bootstrap: Starting the bootstrap process.'',
                  Call (Post ''internal'' ''/cluster/me/bootstrap'' cfg timeout (Some False))]
           \<and> getitem cfg ''nodeConfigs'' = Inr (PDict [])))"
proof (intro conjI impI)
  assume "node_config = PNone \<or> \<not> isinstance_dict node_config"
  then show "run (bootstrap cluster_name admin_email admin_password management_gateway
                    management_subnet_mask enable_encryption node_config
                    dns_search_domains dns_nameservers ntp_servers timeout) tr
               = ([], Inl (SystemExit (''Error: You must provide a valid dictionary for ''
                                        @ [CHR 0x22] @ ''node_config'' @ [CHR 0x22] @ ''.'')))"
    by (auto simp: bootstrap_def run_def praise_def node_config_error_def)
next
  assume ok: "none_or_list dns_search_domains \<and> none_or_list dns_nameservers
                \<and> none_or_list ntp_servers"
  let ?cfg =
    "config_with cluster_name admin_email admin_password enable_encryption
       (or_default dns_search_domains (PList []))
       (or_default dns_nameservers (PList [PStr ''8.8.8.8'']))
       (or_default ntp_servers (PList [PStr ''pool.ntp.org''])) []"
  have trace:
    "fst (run (bootstrap cluster_name admin_email admin_password management_gateway
                 management_subnet_mask enable_encryption (PDict [])
                 dns_search_domains dns_nameservers ntp_servers timeout) tr)
       = [Log ''bootstrap: Starting the bootstrap process.'',
          Call (Post ''internal'' ''/cluster/me/bootstrap'' ?cfg timeout (Some False))]"
    using ok by (simp add: bootstrap_run bootstrap_log_def bootstrap_request_def)
  have nodes: "getitem ?cfg ''nodeConfigs'' = Inr (PDict [])"
    by (simp add: getitem_def config_with_def)
  from trace nodes
  show "\<exists>cfg.
          fst (run (bootstrap cluster_name admin_email admin_password management_gateway
                      management_subnet_mask enable_encryption (PDict [])
                      dns_search_domains dns_nameservers ntp_servers timeout) tr)
            = [Log ''bootstrap: Starting the bootstrap process.'',
               Call (Post ''internal'' ''/cluster/me/bootstrap'' cfg timeout (Some False))]
        \<and> getitem cfg ''nodeConfigs'' = Inr (PDict [])"
    by (intro exI [of _ ?cfg] conjI)
qed

theorem bootstrap_node_config_validation_witness:
  "(PNone = PNone \<or> \<not> isinstance_dict PNone)
   \<and> run (bootstrap (PStr ''cluster1'') (PStr ''admin@example.com'') (PStr ''secret'')
            (PStr ''10.0.0.254'') (PStr ''255.255.255.0'') (PBool True) PNone
            PNone PNone PNone (PInt 15)) (const_transport PNone)
       = ([], Inl (SystemExit (''Error: You must provide a valid dictionary for ''
                                @ [CHR 0x22] @ ''node_config'' @ [CHR 0x22] @ ''.'')))
   \<and> (none_or_list PNone \<and> none_or_list PNone \<and> none_or_list PNone)
   \<and> (\<exists>cfg.
         fst (run (bootstrap (PStr ''cluster1'') (PStr ''admin@example.com'')
                     (PStr ''secret'') (PStr ''10.0.0.254'') (PStr ''255.255.255.0'')
                     (PBool True) (PDict []) PNone PNone PNone (PInt 15))
                (const_transport PNone))
           = [Log ''bootstrap: Starting the bootstrap process.'',
              Call (Post ''internal'' ''/cluster/me/bootstrap'' cfg (PInt 15) (Some False))]
       \<and> getitem cfg ''nodeConfigs'' = Inr (PDict []))"
  using bootstrap_node_config_validation
          [of PNone "PStr ''cluster1''" "PStr ''admin@example.com''" "PStr ''secret''"
              "PStr ''10.0.0.254''" "PStr ''255.255.255.0''" "PBool True"
              PNone PNone PNone "PInt 15" "const_transport PNone"]
    none_or_list_PNone
  by simp

theorem bootstrap_empty_node_config_counterexample:
  "run (bootstrap (PStr ''cluster1'') (PStr ''admin@example.com'') (PStr ''secret'')
          (PStr ''10.0.0.254'') (PStr ''255.255.255.0'') (PBool True) (PDict [])
          PNone PNone PNone (PInt 15)) (const_transport PNone)
     = ([Log ''bootstrap: Starting the bootstrap process.'',
         Call (Post ''internal'' ''/cluster/me/bootstrap''
                 (PDict [(''enableSoftwareEncryptionAtRest'', PBool True),
                         (''name'', PStr ''cluster1''),
                         (''dnsNameservers'', PList [PStr ''8.8.8.8'']),
                         (''dnsSearchDomains'', PList []),
                         (''ntpServers'', PList [PStr ''pool.ntp.org'']),
                         (''adminUserInfo'',
                          PDict [(''password'', PStr ''secret''),
                                 (''emailAddress'', PStr ''admin@example.com''),
                                 (''id'', PStr ''admin'')]),
                         (''nodeConfigs'', PDict [])])
                 (PInt 15) (Some False))],
        Inr PNone)"
  by (simp add: bootstrap_run none_or_list_PNone or_default_def config_with_def
        const_transport_def bootstrap_log_def bootstrap_request_def)

text \<open>
  Claim C5, as the code has it. \<^verbatim>\<open>bootstrap\<close> checks \<open>node_config\<close> and the three list
  overrides only. The required arguments \<open>cluster_name\<close>, \<open>admin_email\<close>,
  \<open>admin_password\<close>, \<open>management_gateway\<close> and \<open>management_subnet_mask\<close> are not
  inspected: whatever their values, once \<open>node_config\<close> is a dictionary and the overrides
  pass, the body is built with them as they are (as \<^verbatim>\<open>name\<close>, as \<^verbatim>\<open>password\<close> and
  \<^verbatim>\<open>emailAddress\<close> of \<^verbatim>\<open>adminUserInfo\<close>, as \<^verbatim>\<open>gateway\<close> and \<^verbatim>\<open>netmask\<close> of every node)
  and posted.
\<close>

theorem bootstrap_scalars_pass_through:
  assumes "isinstance_dict node_config"
    and "none_or_list dns_search_domains" and "none_or_list dns_nameservers"
    and "none_or_list ntp_servers"
  shows "\<exists>cfg admin nodes nc.
           fst (run (bootstrap cluster_name admin_email admin_password management_gateway
                       management_subnet_mask enable_encryption node_config
                       dns_search_domains dns_nameservers ntp_servers timeout) tr)
             = [Log ''bootstrap: Starting the bootstrap process.'',
                Call (Post ''internal'' ''/cluster/me/bootstrap'' cfg timeout (Some False))]
         \<and> getitem cfg ''name'' = Inr cluster_name
         \<and> getitem cfg ''adminUserInfo'' = Inr admin
         \<and> getitem admin ''password'' = Inr admin_password
         \<and> getitem admin ''emailAddress'' = Inr admin_email
         \<and> node_config = PDict nc
         \<and> getitem cfg ''nodeConfigs'' = Inr nodes
         \<and> (\<forall>node_name \<in> fst ` set nc. \<exists>node_ip.
               (node_name, node_ip) \<in> set nc
               \<and> getitem nodes node_name
                   = Inr (PDict [(''managementIpConfig'',
                                  PDict [(''netmask'', management_subnet_mask),
                                         (''gateway'', management_gateway),
                                         (''address'', node_ip)])]))"
proof -
  obtain nc where nc: "node_config = PDict nc"
    using assms(1) by (cases node_config) (simp_all add: isinstance_dict_def)
  let ?admin =
    "PDict [(''password'', admin_password), (''emailAddress'', admin_email),
            (''id'', PStr ''admin'')]"
  let ?nodes = "PDict (foldl (add_node management_subnet_mask management_gateway) [] nc)"
  let ?cfg =
    "config_with cluster_name admin_email admin_password enable_encryption
       (or_default dns_search_domains (PList []))
       (or_default dns_nameservers (PList [PStr ''8.8.8.8'']))
       (or_default ntp_servers (PList [PStr ''pool.ntp.org'']))
       (foldl (add_node management_subnet_mask management_gateway) [] nc)"
  have trace:
    "fst (run (bootstrap cluster_name admin_email admin_password management_gateway
                 management_subnet_mask enable_encryption node_config
                 dns_search_domains dns_nameservers ntp_servers timeout) tr)
       = [Log ''bootstrap: Starting the bootstrap process.'',
          Call (Post ''internal'' ''/cluster/me/bootstrap'' ?cfg timeout (Some False))]"
    by (simp add: nc bootstrap_run [OF assms(2) assms(3) assms(4)]
          bootstrap_log_def bootstrap_request_def)
  have name: "getitem ?cfg ''name'' = Inr cluster_name"
    by (simp add: getitem_def config_with_def)
  have admin: "getitem ?cfg ''adminUserInfo'' = Inr ?admin"
    by (simp add: getitem_def config_with_def)
  have password: "getitem ?admin ''password'' = Inr admin_password"
    by (simp add: getitem_def)
  have email: "getitem ?admin ''emailAddress'' = Inr admin_email"
    by (simp add: getitem_def)
  have nodes: "getitem ?cfg ''nodeConfigs'' = Inr ?nodes"
    by (simp add: getitem_def config_with_def)
  have each:
    "\<forall>node_name \<in> fst ` set nc. \<exists>node_ip.
       (node_name, node_ip) \<in> set nc
       \<and> getitem ?nodes node_name
           = Inr (PDict [(''managementIpConfig'',
                          PDict [(''netmask'', management_subnet_mask),
                                 (''gateway'', management_gateway),
                                 (''address'', node_ip)])])"
  proof
    fix node_name
    assume "node_name \<in> fst ` set nc"
    from map_of_foldl_add_node [OF this]
    obtain node_ip where "(node_name, node_ip) \<in> set nc"
      and "map_of (foldl (add_node management_subnet_mask management_gateway) [] nc) node_name
             = Some (node_entry management_subnet_mask management_gateway node_ip)"
      by blast
    then show "\<exists>node_ip.
       (node_name, node_ip) \<in> set nc
       \<and> getitem ?nodes node_name
           = Inr (PDict [(''managementIpConfig'',
                          PDict [(''netmask'', management_subnet_mask),
                                 (''gateway'', management_gateway),
                                 (''address'', node_ip)])])"
      by (intro exI [of _ node_ip]) (simp add: getitem_def node_entry_def)
  qed
  from trace name admin password email nc nodes each show ?thesis
    by (intro exI [of _ ?cfg] exI [of _ ?admin] exI [of _ ?nodes] exI [of _ nc] conjI)
qed

theorem bootstrap_scalars_pass_through_witness:
  "isinstance_dict (PDict [(''node1'', PStr ''10.0.0.1'')])
   \<and> none_or_list PNone
   \<and> (\<exists>cfg admin nodes nc.
           fst (run (bootstrap (PStr []) (PInt 0) PNone (PList []) (PBool False)
                       (PBool True) (PDict [(''node1'', PStr ''10.0.0.1'')])
                       PNone PNone PNone (PInt 15)) (const_transport PNone))
             = [Log ''bootstrap: Starting the bootstrap process.'',
                Call (Post ''internal'' ''/cluster/me/bootstrap'' cfg (PInt 15) (Some False))]
         \<and> getitem cfg ''name'' = Inr (PStr [])
         \<and> getitem cfg ''adminUserInfo'' = Inr admin
         \<and> getitem admin ''password'' = Inr PNone
         \<and> getitem admin ''emailAddress'' = Inr (PInt 0)
         \<and> PDict [(''node1'', PStr ''10.0.0.1'')] = PDict nc
         \<and> getitem cfg ''nodeConfigs'' = Inr nodes
         \<and> (\<forall>node_name \<in> fst ` set nc. \<exists>node_ip.
               (node_name, node_ip) \<in> set nc
               \<and> getitem nodes node_name
                   = Inr (PDict [(''managementIpConfig'',
                                  PDict [(''netmask'', PBool False),
                                         (''gateway'', PList []),
                                         (''address'', node_ip)])])))"
proof -
  have d: "isinstance_dict (PDict [(''node1'', PStr ''10.0.0.1'')])"
    by (simp add: isinstance_dict_def)
  from d none_or_list_PNone
    bootstrap_scalars_pass_through
      [OF d none_or_list_PNone none_or_list_PNone none_or_list_PNone]
  show ?thesis by (intro conjI)
qed

theorem bootstrap_unchecked_scalars_counterexample:
  "run (bootstrap (PStr []) (PInt 0) PNone (PList []) (PBool False) (PBool True)
          (PDict [(''node1'', PStr ''10.0.0.1'')]) PNone PNone PNone (PInt 15))
       (const_transport PNone)
     = ([Log ''bootstrap: Starting the bootstrap process.'',
         Call (Post ''internal'' ''/cluster/me/bootstrap''
                 (PDict [(''enableSoftwareEncryptionAtRest'', PBool True),
                         (''name'', PStr []),
                         (''dnsNameservers'', PList [PStr ''8.8.8.8'']),
                         (''dnsSearchDomains'', PList []),
                         (''ntpServers'', PList [PStr ''pool.ntp.org'']),
                         (''adminUserInfo'',
                          PDict [(''password'', PNone),
                                 (''emailAddress'', PInt 0),
                                 (''id'', PStr ''admin'')]),
                         (''nodeConfigs'',
                          PDict [(''node1'',
                                  PDict [(''managementIpConfig'',
                                          PDict [(''netmask'', PBool False),
                                                 (''gateway'', PList []),
                                                 (''address'', PStr ''10.0.0.1'')])])])])
                 (PInt 15) (Some False))],
        Inr PNone)"
  by (simp add: bootstrap_run none_or_list_PNone or_default_def config_with_def
        const_transport_def add_node_def node_entry_def bootstrap_log_def
        bootstrap_request_def)

section \<open>Properties of \<^verbatim>\<open>cluster_node_ip\<close>\<close>

lemma cluster_node_ip_run:
  assumes "tr [Log node_ip_log] (node_ip_request timeout) = Inr response"
  shows "snd (run (cluster_node_ip timeout) tr)
           = ebind (getitem response ''data'') (\<lambda>data.
             ebind (py_iter data) (\<lambda>nodes.
             ebind (node_ip_loop nodes []) (\<lambda>node_ip_list.
             Inr (PList node_ip_list))))"
  using assms
  by (simp add: cluster_node_ip_def run_def pbind_def log_def call_def lift_def)

lemma node_ip_loop_all:
  "map (\<lambda>node. getitem node ''ipAddress'') nodes = map Inr ips \<Longrightarrow>
   node_ip_loop nodes node_ip_list = Inr (node_ip_list @ ips)"
proof (induction nodes arbitrary: ips node_ip_list)
  case Nil
  then show ?case by simp
next
  case (Cons node nodes)
  then obtain ip rest where ips: "ips = ip # rest"
    by (cases ips) auto
  with Cons.prems have here: "getitem node ''ipAddress'' = Inr ip"
    and there: "map (\<lambda>node. getitem node ''ipAddress'') nodes = map Inr rest"
    by simp_all
  show ?case
    by (simp add: here ebind_def Cons.IH [OF there] ips)
qed

lemma node_ip_loop_first_failure:
  "map (\<lambda>node. getitem node ''ipAddress'') before = map Inr ips \<Longrightarrow>
   getitem entry ''ipAddress'' = Inl e \<Longrightarrow>
   node_ip_loop (before @ entry # after) node_ip_list = Inl e"
proof (induction before arbitrary: ips node_ip_list)
  case Nil
  then show ?case by (simp add: ebind_def)
next
  case (Cons node before)
  then obtain ip rest where ips: "ips = ip # rest"
    by (cases ips) auto
  with Cons.prems have here: "getitem node ''ipAddress'' = Inr ip"
    and there: "map (\<lambda>node. getitem node ''ipAddress'') before = map Inr rest"
    by simp_all
  show ?case
    by (simp add: here ebind_def Cons.IH [OF there Cons.prems(2)])
qed

lemma node_ip_loop_present:
  "\<forall>node \<in> set entries. \<exists>ip. getitem node ''ipAddress'' = Inr ip \<Longrightarrow>
   \<exists>ips. node_ip_loop entries node_ip_list = Inr ips"
proof (induction entries arbitrary: node_ip_list)
  case Nil
  show ?case by simp
next
  case (Cons node entries)
  then obtain ip where ip: "getitem node ''ipAddress'' = Inr ip"
    by auto
  from Cons.prems have "\<forall>node \<in> set entries. \<exists>ip. getitem node ''ipAddress'' = Inr ip"
    by simp
  from Cons.IH [OF this] ip show ?case
    by (simp add: ebind_def)
qed

lemma getitem_not_dict: "\<not> isinstance_dict v \<Longrightarrow> getitem v k = Inl TypeError"
  by (cases v) (simp_all add: isinstance_dict_def getitem_def)

lemma getitem_missing: "k \<notin> fst ` set fields \<Longrightarrow> getitem (PDict fields) k = Inl (KeyError k)"
proof -
  assume "k \<notin> fst ` set fields"
  then have "map_of fields k = None"
    by (simp add: map_of_eq_None_iff)
  then show ?thesis
    by (simp add: getitem_def)
qed

text \<open>
  Claim C6. When the response of the node listing has a \<^verbatim>\<open>data\<close> field that is a
  sequence of entries each of which has an \<^verbatim>\<open>ipAddress\<close> field, \<^verbatim>\<open>cluster_node_ip\<close>
  returns the list of those \<^verbatim>\<open>ipAddress\<close> values, in the order of the entries.
\<close>

theorem cluster_node_ip_returns_addresses:
  assumes "tr [Log node_ip_log] (node_ip_request timeout) = Inr response"
    and "getitem response ''data'' = Inr data"
    and "py_iter data = Inr entries"
    and "map (\<lambda>entry. getitem entry ''ipAddress'') entries = map Inr ips"
  shows "snd (run (cluster_node_ip timeout) tr) = Inr (PList ips)"
  using node_ip_loop_all [OF assms(4), of "[]"]
  by (simp add: cluster_node_ip_run [where tr = tr, OF assms(1)] assms(2) assms(3) ebind_def)

theorem cluster_node_ip_returns_addresses_witness:
  "const_transport two_nodes [Log node_ip_log] (node_ip_request (PInt 15)) = Inr two_nodes
   \<and> getitem two_nodes ''data''
       = Inr (PList [PDict [(''ipAddress'', PStr ''10.0.0.1'')],
                     PDict [(''ipAddress'', PStr ''10.0.0.2'')]])
   \<and> snd (run (cluster_node_ip (PInt 15)) (const_transport two_nodes))
       = Inr (PList [PStr ''10.0.0.1'', PStr ''10.0.0.2''])"
proof -
  have h1: "const_transport two_nodes [Log node_ip_log] (node_ip_request (PInt 15))
              = Inr two_nodes"
    by (simp add: const_transport_def)
  have h2: "getitem two_nodes ''data''
              = Inr (PList [PDict [(''ipAddress'', PStr ''10.0.0.1'')],
                            PDict [(''ipAddress'', PStr ''10.0.0.2'')]])"
    by (simp add: two_nodes_def getitem_def)
  have h3: "py_iter (PList [PDict [(''ipAddress'', PStr ''10.0.0.1'')],
                            PDict [(''ipAddress'', PStr ''10.0.0.2'')]])
              = Inr [PDict [(''ipAddress'', PStr ''10.0.0.1'')],
                     PDict [(''ipAddress'', PStr ''10.0.0.2'')]]"
    by (simp add: py_iter_def)
  have h4: "map (\<lambda>entry. getitem entry ''ipAddress'')
                [PDict [(''ipAddress'', PStr ''10.0.0.1'')],
                 PDict [(''ipAddress'', PStr ''10.0.0.2'')]]
              = map Inr [PStr ''10.0.0.1'', PStr ''10.0.0.2'']"
    by (simp add: getitem_def)
  from h1 h2
    cluster_node_ip_returns_addresses [where tr = "const_transport two_nodes", OF h1 h2 h3 h4]
  show ?thesis
    by (intro conjI)
qed

text \<open>
  Claim C7, as the code has it. \<^verbatim>\<open>cluster_node_ip\<close> has no handling of missing keys. A
  response that is a dictionary without a \<^verbatim>\<open>data\<close> key fails with \<^verbatim>\<open>KeyError\<close> on
  \<^verbatim>\<open>data\<close>. When the entries of \<^verbatim>\<open>data\<close> are visited in order and the first one that does
  not yield an \<^verbatim>\<open>ipAddress\<close> is a dictionary without that key, the call fails with
  \<^verbatim>\<open>KeyError\<close> on \<^verbatim>\<open>ipAddress\<close>. A response that is not a dictionary, or a first failing
  entry that is not a dictionary, fails with \<^verbatim>\<open>TypeError\<close> instead, which is not a lookup
  error. When every entry yields an \<^verbatim>\<open>ipAddress\<close> the call returns a list and raises
  nothing.
\<close>

theorem cluster_node_ip_key_errors:
  assumes "tr [Log ''cluster_node_ip: Generating a list of all Cluster Node IPs.'']
              (Get ''internal'' ''/cluster/me/node'' (Some timeout) None) = Inr response"
  shows "(response = PDict fields \<and> ''data'' \<notin> fst ` set fields
            \<longrightarrow> snd (run (cluster_node_ip timeout) tr) = Inl (KeyError ''data''))
       \<and> (\<not> isinstance_dict response
            \<longrightarrow> snd (run (cluster_node_ip timeout) tr) = Inl TypeError)
       \<and> (getitem response ''data'' = Inr data
            \<and> py_iter data = Inr (before @ entry # after)
            \<and> map (\<lambda>node. getitem node ''ipAddress'') before = map Inr ips
            \<longrightarrow> (entry = PDict entry_fields \<and> ''ipAddress'' \<notin> fst ` set entry_fields
                   \<longrightarrow> snd (run (cluster_node_ip timeout) tr) = Inl (KeyError ''ipAddress''))
                \<and> (\<not> isinstance_dict entry
                   \<longrightarrow> snd (run (cluster_node_ip timeout) tr) = Inl TypeError))
       \<and> (getitem response ''data'' = Inr data
            \<and> py_iter data = Inr entries
            \<and> (\<forall>node \<in> set entries. \<exists>ip. getitem node ''ipAddress'' = Inr ip)
            \<longrightarrow> (\<exists>addresses. snd (run (cluster_node_ip timeout) tr) = Inr (PList addresses)))"
proof -
  have answered: "tr [Log node_ip_log] (node_ip_request timeout) = Inr response"
    using assms by (simp add: node_ip_log_def node_ip_request_def)
  note unfold = cluster_node_ip_run [where tr = tr, OF answered]
  have no_data:
    "response = PDict fields \<and> ''data'' \<notin> fst ` set fields
       \<longrightarrow> snd (run (cluster_node_ip timeout) tr) = Inl (KeyError ''data'')"
    by (simp add: unfold getitem_missing ebind_def)
  have no_dict:
    "\<not> isinstance_dict response
       \<longrightarrow> snd (run (cluster_node_ip timeout) tr) = Inl TypeError"
    by (simp add: unfold getitem_not_dict ebind_def)
  have failing:
    "getitem response ''data'' = Inr data
       \<and> py_iter data = Inr (before @ entry # after)
       \<and> map (\<lambda>node. getitem node ''ipAddress'') before = map Inr ips
       \<longrightarrow> (entry = PDict entry_fields \<and> ''ipAddress'' \<notin> fst ` set entry_fields
              \<longrightarrow> snd (run (cluster_node_ip timeout) tr) = Inl (KeyError ''ipAddress''))
           \<and> (\<not> isinstance_dict entry
              \<longrightarrow> snd (run (cluster_node_ip timeout) tr) = Inl TypeError)"
  proof (intro impI conjI)
    assume shape: "getitem response ''data'' = Inr data
       \<and> py_iter data = Inr (before @ entry # after)
       \<and> map (\<lambda>node. getitem node ''ipAddress'') before = map Inr ips"
    then have before: "map (\<lambda>node. getitem node ''ipAddress'') before = map Inr ips"
      by simp
    {
      assume "entry = PDict entry_fields \<and> ''ipAddress'' \<notin> fst ` set entry_fields"
      then have "getitem entry ''ipAddress'' = Inl (KeyError ''ipAddress'')"
        by (simp add: getitem_missing)
      from node_ip_loop_first_failure [OF before this, of after "[]"] shape
      show "snd (run (cluster_node_ip timeout) tr) = Inl (KeyError ''ipAddress'')"
        by (simp add: unfold ebind_def)
    }
    {
      assume "\<not> isinstance_dict entry"
      then have "getitem entry ''ipAddress'' = Inl TypeError"
        by (rule getitem_not_dict)
      from node_ip_loop_first_failure [OF before this, of after "[]"] shape
      show "snd (run (cluster_node_ip timeout) tr) = Inl TypeError"
        by (simp add: unfold ebind_def)
    }
  qed
  have expected:
    "getitem response ''data'' = Inr data
       \<and> py_iter data = Inr entries
       \<and> (\<forall>node \<in> set entries. \<exists>ip. getitem node ''ipAddress'' = Inr ip)
       \<longrightarrow> (\<exists>addresses. snd (run (cluster_node_ip timeout) tr) = Inr (PList addresses))"
  proof
    assume shape: "getitem response ''data'' = Inr data
       \<and> py_iter data = Inr entries
       \<and> (\<forall>node \<in> set entries. \<exists>ip. getitem node ''ipAddress'' = Inr ip)"
    then obtain addresses where "node_ip_loop entries [] = Inr addresses"
      using node_ip_loop_present [of entries "[]"] by blast
    with shape have "snd (run (cluster_node_ip timeout) tr) = Inr (PList addresses)"
      by (simp add: unfold ebind_def)
    then show "\<exists>addresses. snd (run (cluster_node_ip timeout) tr) = Inr (PList addresses)"
      by blast
  qed
  from no_data no_dict failing expected show ?thesis
    by (intro conjI)
qed

theorem cluster_node_ip_key_errors_witness:
  "snd (run (cluster_node_ip (PInt 15)) (const_transport (PDict [(''total'', PInt 0)])))
     = Inl (KeyError ''data'')
   \<and> snd (run (cluster_node_ip (PInt 15)) (const_transport (PList []))) = Inl TypeError
   \<and> snd (run (cluster_node_ip (PInt 15))
             (const_transport
                (PDict [(''data'', PList [PDict [(''ipAddress'', PStr ''10.0.0.1'')],
                                          PDict [(''id'', PStr ''node2'')]])])))
     = Inl (KeyError ''ipAddress'')
   \<and> snd (run (cluster_node_ip (PInt 15))
             (const_transport
                (PDict [(''data'', PList [PInt 5, PDict [(''id'', PStr ''node2'')]])])))
     = Inl TypeError
   \<and> (\<exists>addresses. snd (run (cluster_node_ip (PInt 15)) (const_transport two_nodes))
                    = Inr (PList addresses))"
proof -
  let ?r1 = "PDict [(''total'', PInt 0)]"
  let ?d3 = "PList [PDict [(''ipAddress'', PStr ''10.0.0.1'')], PDict [(''id'', PStr ''node2'')]]"
  let ?d4 = "PList [PInt 5, PDict [(''id'', PStr ''node2'')]]"
  let ?d5 = "PList [PDict [(''ipAddress'', PStr ''10.0.0.1'')],
                    PDict [(''ipAddress'', PStr ''10.0.0.2'')]]"
  have t: "\<And>response.
             const_transport response
               [Log ''cluster_node_ip: Generating a list of all Cluster Node IPs.'']
               (Get ''internal'' ''/cluster/me/node'' (Some (PInt 15)) None)
             = Inr response"
    by (simp add: const_transport_def)
  have c1: "snd (run (cluster_node_ip (PInt 15)) (const_transport ?r1))
              = Inl (KeyError ''data'')"
    using cluster_node_ip_key_errors
            [where tr = "const_transport ?r1" and fields = "[(''total'', PInt 0)]", OF t]
    by simp
  have c2: "snd (run (cluster_node_ip (PInt 15)) (const_transport (PList []))) = Inl TypeError"
    using cluster_node_ip_key_errors [where tr = "const_transport (PList [])", OF t]
    by (simp add: isinstance_dict_def)
  have c3: "snd (run (cluster_node_ip (PInt 15)) (const_transport (PDict [(''data'', ?d3)])))
              = Inl (KeyError ''ipAddress'')"
    using cluster_node_ip_key_errors
            [where tr = "const_transport (PDict [(''data'', ?d3)])" and data = ?d3
               and before = "[PDict [(''ipAddress'', PStr ''10.0.0.1'')]]"
               and entry = "PDict [(''id'', PStr ''node2'')]" and after = "[]"
               and ips = "[PStr ''10.0.0.1'']"
               and entry_fields = "[(''id'', PStr ''node2'')]", OF t]
    by (simp add: getitem_def py_iter_def)
  have c4: "snd (run (cluster_node_ip (PInt 15)) (const_transport (PDict [(''data'', ?d4)])))
              = Inl TypeError"
    using cluster_node_ip_key_errors
            [where tr = "const_transport (PDict [(''data'', ?d4)])" and data = ?d4
               and before = "[]" and entry = "PInt 5"
               and after = "[PDict [(''id'', PStr ''node2'')]]" and ips = "[]", OF t]
    by (simp add: getitem_def py_iter_def isinstance_dict_def)
  have c5: "\<exists>addresses. snd (run (cluster_node_ip (PInt 15)) (const_transport two_nodes))
                         = Inr (PList addresses)"
    using cluster_node_ip_key_errors
            [where tr = "const_transport two_nodes" and data = ?d5
               and entries = "[PDict [(''ipAddress'', PStr ''10.0.0.1'')],
                               PDict [(''ipAddress'', PStr ''10.0.0.2'')]]", OF t]
    by (simp add: getitem_def py_iter_def two_nodes_def)
  from c1 c2 c3 c4 c5 show ?thesis
    by (intro conjI)
qed

theorem cluster_node_ip_type_error_counterexample:
  "snd (run (cluster_node_ip (PInt 15))
          (const_transport
             (PDict [(''data'', PList [PInt 5, PDict [(''id'', PStr ''node2'')]])])))
     = Inl TypeError"
  by (simp add: cluster_node_ip_def run_def pbind_def log_def call_def lift_def
        const_transport_def getitem_def py_iter_def ebind_def)

end
